theory Spec2Isabelle
  imports Main "HOL-Library.Word"
begin

section \<open>The process as the program sees it\<close>

text \<open>
  The program is a single C function:
  \<^verbatim>\<open>
  int main()
  {
      uid_t ruid, euid;
      ruid = getuid();
      euid = geteuid();

      printf("real: %d effective: %d\n", ruid, euid);

      return 0;
  }
  \<close>
  It reads two credentials of the running process and prints one formatted line on the
  standard output stream.  The platform fixed here is the one the program is built for:
  \<open>uid_t\<close> is an unsigned 32-bit integer and \<open>int\<close> is a signed 32-bit integer.
\<close>

type_synonym uid_t = "32 word"

text \<open>
  Every library call that the program makes is logged, in order.  \<open>Call_printf\<close>
  carries the bytes that the call puts on the standard output stream.
\<close>

datatype event = Call_getuid | Call_geteuid | Call_printf string

text \<open>
  What file descriptor 1 is connected to.  A terminal either takes a write or returns an
  error.  Anything else (a file, a pipe, a socket, a closed descriptor) takes the write,
  returns an error, or is a pipe whose reading end is gone.
\<close>

datatype fd_state = Accepts | Fails | Pipe_broken

datatype stdout_dest = Terminal bool | Non_terminal fd_state

text \<open>
  The ambient state of the process.  The two credentials are what the kernel reports;
  \<open>argv\<close> and \<open>envp\<close> are what the process was started with; \<open>stdout_to\<close> is
  what descriptor 1 is connected to; \<open>sigpipe_ignored\<close> says whether the process
  inherited \<open>SIGPIPE\<close> as ignored; \<open>stdout\<close> holds the bytes that have reached
  descriptor 1.  The record is used as an extensible scheme: its \<open>more\<close> part stands
  for the rest of the machine (files, sockets, every other attribute of the process).
\<close>

record proc =
  ruid :: uid_t
  euid :: uid_t
  argv :: "string list"
  envp :: "string list"
  stdout_to :: stdout_dest
  sigpipe_ignored :: bool
  stdout :: string
  trace :: "event list"

text \<open>Descriptor 1 takes a write.\<close>

definition stdout_open :: "'a proc_scheme \<Rightarrow> bool" where
  "stdout_open s = (case stdout_to s of Terminal ok \<Rightarrow> ok | Non_terminal c \<Rightarrow> c = Accepts)"

text \<open>
  A write on descriptor 1 kills the process: the pipe has no reader and \<open>SIGPIPE\<close>
  has its default action.
\<close>

definition sigpipe_kills :: "'a proc_scheme \<Rightarrow> bool" where
  "sigpipe_kills s = (stdout_to s = Non_terminal Pipe_broken \<and> \<not> sigpipe_ignored s)"

definition SIGPIPE :: nat where
  "SIGPIPE = 13"

text \<open>How a process ends: by \<open>exit\<close> with a status, or killed by a signal.\<close>

datatype wait_status = Exited int | Signaled nat

section \<open>The library calls\<close>

subsection \<open>Identity queries\<close>

text \<open>\<open>getuid\<close> and \<open>geteuid\<close> cannot fail; each returns one credential and changes nothing.\<close>

definition getuid :: "'a proc_scheme \<Rightarrow> uid_t \<times> 'a proc_scheme" where
  "getuid s = (ruid s, s\<lparr>trace := trace s @ [Call_getuid]\<rparr>)"

definition geteuid :: "'a proc_scheme \<Rightarrow> uid_t \<times> 'a proc_scheme" where
  "geteuid s = (euid s, s\<lparr>trace := trace s @ [Call_geteuid]\<rparr>)"

subsection \<open>Writing on descriptor 1\<close>

text \<open>
  The system call \<open>write(1, bytes)\<close>: the bytes reach the descriptor, or the call
  returns an error and nothing is written, or the process is killed by \<open>SIGPIPE\<close>.
\<close>

datatype write_result = Wrote nat | Write_error | Killed nat

definition write_stdout :: "string \<Rightarrow> 'a proc_scheme \<Rightarrow> write_result \<times> 'a proc_scheme" where
  "write_stdout bytes s =
     (if stdout_open s then (Wrote (length bytes), s\<lparr>stdout := stdout s @ bytes\<rparr>)
      else if sigpipe_kills s then (Killed SIGPIPE, s)
      else (Write_error, s))"

subsection \<open>Formatted output\<close>

definition digit_char :: "nat \<Rightarrow> char" where
  "digit_char d = ''0123456789'' ! d"

text \<open>Decimal digits of a natural number, most significant first, \<open>0\<close> as \<open>''0''\<close>.\<close>

fun dec :: "nat \<Rightarrow> string" where
  "dec n = (if n < 10 then [digit_char n] else dec (n div 10) @ [digit_char (n mod 10)])"

declare dec.simps [simp del]

text \<open>
  The conversion \<open>%d\<close> takes its argument as an \<open>int\<close>.  The program passes a
  \<open>uid_t\<close>, so the 32 bits of the identifier are read as two's complement (\<open>sint\<close>).
\<close>

definition conv_d :: "32 word \<Rightarrow> string" where
  "conv_d w = (let i = sint w in if i < 0 then CHR ''-'' # dec (nat (- i)) else dec (nat i))"

text \<open>
  The format string is copied to the output; each \<open>%d\<close> is replaced by the conversion
  of the next argument.  No other conversion occurs in the program.
\<close>

fun format :: "string \<Rightarrow> 32 word list \<Rightarrow> string" where
  "format [] args = []"
| "format [c] args = [c]"
| "format (c # d # fmt) args =
     (if c = CHR ''%'' \<and> d = CHR ''d''
      then (case args of [] \<Rightarrow> format fmt [] | a # rest \<Rightarrow> conv_d a @ format fmt rest)
      else c # format (d # fmt) args)"

text \<open>
  The standard output stream keeps a buffer, passed along explicitly as the bytes not
  yet written.  A line-buffered stream writes everything up to its last newline and
  keeps the rest.
\<close>

definition split_line_buffer :: "string \<Rightarrow> string \<times> string" where
  "split_line_buffer bs =
     (rev (dropWhile (\<lambda>c. c \<noteq> CHR 0x0A) (rev bs)), rev (takeWhile (\<lambda>c. c \<noteq> CHR 0x0A) (rev bs)))"

text \<open>
  \<open>printf\<close> formats into the buffer of the stream and returns the number of bytes it
  produced.  When descriptor 1 is a terminal the stream is line buffered: the call
  writes the buffer up to the last newline at once, and returns a negative value if that
  write fails (the bytes then stay in the buffer).  Otherwise the stream is fully
  buffered: the call only fills the buffer and succeeds, and the bytes are written when
  the stream is flushed.  The buffer holds several thousand bytes; the one line this
  program prints is at most 41 bytes long and never fills it.
\<close>

definition printf ::
  "string \<Rightarrow> 32 word list \<Rightarrow> string \<Rightarrow> 'a proc_scheme \<Rightarrow> int \<times> string \<times> 'a proc_scheme" where
  "printf fmt args buf s =
     (let out = format fmt args;
          s1 = s\<lparr>trace := trace s @ [Call_printf out]\<rparr>;
          pending = buf @ out
      in case stdout_to s of
           Non_terminal c \<Rightarrow> (int (length out), pending, s1)
         | Terminal ok \<Rightarrow>
             (let (now, later) = split_line_buffer pending
              in if now = [] then (int (length out), pending, s1)
                 else (case write_stdout now s1 of
                         (Wrote n, s2) \<Rightarrow> (int (length out), later, s2)
                       | (r, s2) \<Rightarrow> (- 1, pending, s2))))"

subsection \<open>Leaving the program\<close>

text \<open>
  \<open>exit\<close> flushes what is left in the buffer of the standard output stream and ends
  the process.  It does not look at the result of the flush: a write that returns an
  error changes nothing.  A write that raises \<open>SIGPIPE\<close> kills the process before
  \<open>exit\<close> completes.  The parent sees the low eight bits of the status.
\<close>

definition exit_process :: "int \<Rightarrow> string \<Rightarrow> 'a proc_scheme \<Rightarrow> wait_status \<times> 'a proc_scheme" where
  "exit_process status buf s =
     (if buf = [] then (Exited (status mod 256), s)
      else (case write_stdout buf s of
              (Killed sig, s') \<Rightarrow> (Signaled sig, s')
            | (r, s') \<Rightarrow> (Exited (status mod 256), s')))"

section \<open>The program\<close>

text \<open>
  \<open>main\<close> returns its status together with the buffer of the standard output stream
  and the state of the process.  The stream is empty when \<open>main\<close> is entered.
\<close>

definition main :: "'a proc_scheme \<Rightarrow> int \<times> string \<times> 'a proc_scheme" where
  "main s0 =
     (let (ruid_v, s1) = getuid s0;
          (euid_v, s2) = geteuid s1;
          (_, buf, s3) = printf ''real: %d effective: %d\<newline>'' [ruid_v, euid_v] [] s2
      in (0, buf, s3))"

text \<open>
  The C runtime calls \<open>main\<close> and passes what it returns to \<open>exit\<close>: returning from
  \<open>main\<close> is the same as calling \<open>exit\<close> with the returned value.
\<close>

definition run_process :: "'a proc_scheme \<Rightarrow> wait_status \<times> 'a proc_scheme" where
  "run_process s = (let (status, buf, s') = main s in exit_process status buf s')"

section \<open>What a run does, as seen from outside\<close>

text \<open>The exit status the program produces: the value \<open>main\<close> returns.\<close>

definition exit_status :: "'a proc_scheme \<Rightarrow> int" where
  "exit_status s = fst (main s)"

text \<open>The calls made during the run, in order: what the run appended to the log.\<close>

definition calls :: "'a proc_scheme \<Rightarrow> event list" where
  "calls s = drop (length (trace s)) (trace (snd (run_process s)))"

text \<open>The bytes that reached standard output during the run.\<close>

definition written :: "'a proc_scheme \<Rightarrow> string" where
  "written s = drop (length (stdout s)) (stdout (snd (run_process s)))"

text \<open>The payloads of the output calls of a log, in order.\<close>

definition output_calls :: "event list \<Rightarrow> string list" where
  "output_calls t = concat (map (\<lambda>e. case e of Call_printf out \<Rightarrow> [out] | _ \<Rightarrow> []) t)"

text \<open>Reading a decimal numeral back: the number that a string of digits denotes.\<close>

definition digit_value :: "char \<Rightarrow> nat" where
  "digit_value c = of_char c - 48"

definition decimal_value :: "string \<Rightarrow> nat" where
  "decimal_value cs = foldl (\<lambda>a c. 10 * a + digit_value c) 0 cs"

text \<open>
  Reading a printed field back as a signed number: a leading \<open>-\<close> negates the
  numeral that follows it.
\<close>

definition signed_value :: "string \<Rightarrow> int" where
  "signed_value cs =
     (case cs of [] \<Rightarrow> 0
      | c # ds \<Rightarrow> if c = CHR ''-'' then - int (decimal_value ds) else int (decimal_value cs))"

section \<open>Facts about the library model\<close>

subsection \<open>Decimal digits\<close>

lemma digit_cases: "d < 10 \<Longrightarrow> d \<in> {0, 1, 2, 3, 4, 5, 6, 7, 8, 9 :: nat}"
  by auto

lemma digit_value_digit_char: "d < 10 \<Longrightarrow> digit_value (digit_char d) = d"
  using digit_cases [of d] by (auto simp: digit_value_def digit_char_def)

lemma digit_char_in: "d < 10 \<Longrightarrow> digit_char d \<in> set ''0123456789''"
  using digit_cases [of d] by (auto simp: digit_char_def)

lemma decimal_value_snoc: "decimal_value (cs @ [c]) = 10 * decimal_value cs + digit_value c"
  by (simp add: decimal_value_def)

text \<open>\<open>dec\<close> writes the base-10 numeral of its argument: reading it back gives the number.\<close>

lemma decimal_value_dec: "decimal_value (dec n) = n"
proof (induction n rule: dec.induct)
  case (1 n)
  show ?case
  proof (cases "n < 10")
    case True
    then show ?thesis
      by (simp add: dec.simps [of n] decimal_value_def digit_value_digit_char)
  next
    case False
    with 1 show ?thesis
      by (simp add: dec.simps [of n] decimal_value_snoc digit_value_digit_char)
  qed
qed

lemma set_dec: "set (dec n) \<subseteq> set ''0123456789''"
proof (induction n rule: dec.induct)
  case (1 n)
  show ?case
  proof (cases "n < 10")
    case True
    then show ?thesis
      using digit_char_in [of n] by (simp add: dec.simps [of n])
  next
    case False
    with 1 show ?thesis
      using digit_char_in [of "n mod 10"] by (simp add: dec.simps [of n])
  qed
qed

lemma dec_not_Nil: "dec n \<noteq> []"
  by (simp add: dec.simps [of n])

text \<open>No leading zero: the numeral of a positive number does not start with \<open>0\<close>.\<close>

lemma hd_dec: "0 < n \<Longrightarrow> hd (dec n) \<noteq> CHR ''0''"
proof (induction n rule: dec.induct)
  case (1 n)
  show ?case
  proof (cases "n < 10")
    case True
    with "1.prems" show ?thesis
      using digit_cases [of n] by (auto simp: dec.simps [of n] digit_char_def)
  next
    case False
    then have "0 < n div 10" by simp
    with 1 False show ?thesis
      by (simp add: dec.simps [of n] dec_not_Nil)
  qed
qed

subsection \<open>Reading 32 bits as a signed integer\<close>

lemma stb_low: "0 \<le> k \<Longrightarrow> k < 2 ^ 31 \<Longrightarrow> signed_take_bit 31 (k::int) = k"
  by (simp add: signed_take_bit_int_eq_self)

lemma stb_high: "2 ^ 31 \<le> k \<Longrightarrow> k < 2 ^ 32 \<Longrightarrow> signed_take_bit 31 (k::int) = k - 2 ^ 32"
proof -
  assume a: "2 ^ 31 \<le> k" "k < 2 ^ 32"
  define x where "x = k - 2 ^ 31"
  have x: "0 \<le> x" "x < 2 ^ 32" and k: "k = x + 2 ^ 31"
    using a by (simp_all add: x_def)
  have "(x + 2 ^ 32) mod 2 ^ 32 = x mod 2 ^ 32"
    by (rule mod_add_self2)
  also have "\<dots> = x"
    using x by (rule mod_pos_pos_trivial)
  finally have m: "(x + 2 ^ 32) mod 2 ^ 32 = x" .
  have "signed_take_bit 31 k = (k + 2 ^ 31) mod 2 ^ 32 - 2 ^ 31"
    using signed_take_bit_eq_take_bit_shift [of 31 k] by (simp add: take_bit_eq_mod)
  also have "k + 2 ^ 31 = x + 2 ^ 32"
    by (simp add: k)
  finally show ?thesis
    by (simp only: m) (simp add: k)
qed

lemma uint_32_bound: "uint (w :: 32 word) < 2 ^ 32"
  using uint_bounded [of w] by simp

lemma unat_32_bound: "unat (w :: 32 word) < 4294967296"
proof -
  have "uint w = int (unat w)" by simp
  moreover have "uint w < 4294967296" using uint_32_bound [of w] by simp
  ultimately show ?thesis by linarith
qed

lemma sint_low: "unat (w :: 32 word) < 2 ^ 31 \<Longrightarrow> sint w = int (unat w)"
proof -
  assume a: "unat w < 2 ^ 31"
  have "uint w = int (unat w)" by simp
  moreover from a have "unat w < 2147483648" by simp
  ultimately have "uint w < 2147483648" by linarith
  then have "uint w < 2 ^ 31" by simp
  then have "signed_take_bit 31 (uint w) = uint w"
    by (intro stb_low) simp_all
  then show ?thesis
    by (simp add: sint_uint)
qed

lemma sint_high: "2 ^ 31 \<le> unat (w :: 32 word) \<Longrightarrow> sint w = int (unat w) - 2 ^ 32"
proof -
  assume a: "2 ^ 31 \<le> unat w"
  have "uint w = int (unat w)" by simp
  moreover from a have "2147483648 \<le> unat w" by simp
  ultimately have "2147483648 \<le> uint w" by linarith
  then have "2 ^ 31 \<le> uint w" by simp
  then have "signed_take_bit 31 (uint w) = uint w - 2 ^ 32"
    using uint_32_bound [of w] by (intro stb_high)
  then show ?thesis
    by (simp add: sint_uint)
qed

subsection \<open>The conversion \<open>%d\<close>\<close>

lemma conv_d_low: "unat u < 2 ^ 31 \<Longrightarrow> conv_d u = dec (unat u)"
  by (simp add: conv_d_def sint_low del: of_nat_unat)

lemma conv_d_high: "2 ^ 31 \<le> unat u \<Longrightarrow> conv_d u = CHR ''-'' # dec (2 ^ 32 - unat u)"
proof -
  assume a: "2 ^ 31 \<le> unat u"
  have b: "unat u < 4294967296" by (rule unat_32_bound)
  have s: "sint u = int (unat u) - 4294967296"
    using sint_high [OF a] by simp
  from s b have neg: "sint u < 0"
    by linarith
  from s b have "nat (- sint u) = 4294967296 - unat u"
    by linarith
  then have n: "nat (- sint u) = 2 ^ 32 - unat u"
    by simp
  show ?thesis
    by (simp only: conv_d_def Let_def neg n if_True)
qed

lemma minus_notin_dec: "CHR ''-'' \<notin> set (dec n)"
proof -
  have "CHR ''-'' \<notin> set ''0123456789''"
    by simp
  with set_dec [of n] show ?thesis
    by blast
qed

lemma signed_value_dec: "signed_value (dec n) = int n"
proof (cases "dec n")
  case Nil
  then show ?thesis by (simp add: dec_not_Nil)
next
  case (Cons c ds)
  with minus_notin_dec [of n] have "c \<noteq> CHR ''-''"
    by auto
  with Cons decimal_value_dec [of n] show ?thesis
    by (simp add: signed_value_def)
qed

lemma signed_value_minus_dec: "signed_value (CHR ''-'' # dec n) = - int n"
  by (simp add: signed_value_def decimal_value_dec)

text \<open>The conversion at the identifiers used in the scenarios below.\<close>

lemma conv_d_0: "conv_d 0 = ''0''"
  by (simp add: conv_d_def dec.simps digit_char_def)

lemma conv_d_1000: "conv_d 1000 = ''1000''"
  by (simp add: conv_d_def dec.simps digit_char_def)

lemma conv_d_3000000000: "conv_d 3000000000 = ''-1294967296''"
  by (simp add: conv_d_def dec.simps digit_char_def)

lemma conv_d_4294967294: "conv_d 4294967294 = ''-2''"
  by (simp add: conv_d_def dec.simps digit_char_def)

text \<open>The conversion written out: what \<open>%d\<close> prints for each identifier.\<close>

lemma conv_d_explicit:
  "conv_d u = (if unat u < 2 ^ 31 then dec (unat u) else CHR ''-'' # dec (2 ^ 32 - unat u))"
  using conv_d_low [of u] conv_d_high [of u] by (cases "unat u < 2 ^ 31") simp_all

subsection \<open>The run, unfolded\<close>

lemma format_line:
  "format ''real: %d effective: %d\<newline>'' [r, e] =
     ''real: '' @ conv_d r @ '' effective: '' @ conv_d e @ ''\<newline>''"
  by simp

lemma split_line_buffer_snoc: "split_line_buffer (xs @ [CHR 0x0A]) = (xs @ [CHR 0x0A], [])"
  by (simp add: split_line_buffer_def)

lemma split_line_buffer_line:
  "split_line_buffer (''real: '' @ fr @ '' effective: '' @ fe @ ''\<newline>'') =
     (''real: '' @ fr @ '' effective: '' @ fe @ ''\<newline>'', [])"
  using split_line_buffer_snoc [of "''real: '' @ fr @ '' effective: '' @ fe"] by simp

text \<open>A write on a terminal never raises \<open>SIGPIPE\<close>: it is written or returns an error.\<close>

lemma terminal_write_not_killed:
  "stdout_to s = Terminal ok \<Longrightarrow> fst (write_stdout bytes s) \<noteq> Killed k"
  by (simp add: write_stdout_def sigpipe_kills_def)

text \<open>
  On a stream that is not a terminal \<open>printf\<close> only fills the buffer: it returns the
  number of bytes and writes nothing, whatever the condition of the descriptor.
\<close>

lemma printf_buffers:
  "stdout_to s = Non_terminal c \<Longrightarrow>
     printf fmt args buf s =
       (int (length (format fmt args)), buf @ format fmt args,
        s\<lparr>trace := trace s @ [Call_printf (format fmt args)]\<rparr>)"
  by (simp add: printf_def Let_def)

lemma printf_line:
  "printf ''real: %d effective: %d\<newline>'' [r, e] [] s =
     (let line = ''real: '' @ conv_d r @ '' effective: '' @ conv_d e @ ''\<newline>'';
          s1 = s\<lparr>trace := trace s @ [Call_printf line]\<rparr>
      in case stdout_to s of
           Terminal True \<Rightarrow> (int (length line), [], s1\<lparr>stdout := stdout s @ line\<rparr>)
         | Terminal False \<Rightarrow> (- 1, line, s1)
         | Non_terminal c \<Rightarrow> (int (length line), line, s1))"
proof (cases "stdout_to s")
  case (Terminal ok)
  then show ?thesis
    unfolding printf_def format_line
    by (cases ok)
      (simp_all add: Let_def split_line_buffer_line write_stdout_def stdout_open_def
        sigpipe_kills_def del: append_Cons)
next
  case (Non_terminal c)
  then show ?thesis
    unfolding printf_def format_line by (simp add: Let_def)
qed

lemma main_unfold:
  "main s =
     (0,
      (if stdout_to s = Terminal True then []
       else ''real: '' @ conv_d (ruid s) @ '' effective: '' @ conv_d (euid s) @ ''\<newline>''),
      s\<lparr>trace := trace s @ [Call_getuid, Call_geteuid,
           Call_printf (''real: '' @ conv_d (ruid s) @ '' effective: '' @ conv_d (euid s) @ ''\<newline>'')],
        stdout := (if stdout_to s = Terminal True
                   then stdout s @ ''real: '' @ conv_d (ruid s) @ '' effective: '' @ conv_d (euid s) @ ''\<newline>''
                   else stdout s)\<rparr>)"
proof (cases "stdout_to s")
  case (Terminal ok)
  then show ?thesis
    unfolding main_def getuid_def geteuid_def
    by (cases ok) (simp_all add: printf_line Let_def)
next
  case (Non_terminal c)
  then show ?thesis
    unfolding main_def getuid_def geteuid_def
    by (simp add: printf_line Let_def)
qed

lemma run_process_unfold:
  "run_process s =
     ((if sigpipe_kills s then Signaled SIGPIPE else Exited 0),
      s\<lparr>trace := trace s @ [Call_getuid, Call_geteuid,
           Call_printf (''real: '' @ conv_d (ruid s) @ '' effective: '' @ conv_d (euid s) @ ''\<newline>'')],
        stdout := (if stdout_open s
                   then stdout s @ ''real: '' @ conv_d (ruid s) @ '' effective: '' @ conv_d (euid s) @ ''\<newline>''
                   else stdout s)\<rparr>)"
proof (cases "stdout_to s")
  case (Terminal ok)
  then show ?thesis
    unfolding run_process_def main_unfold
    by (cases ok)
      (simp_all add: exit_process_def write_stdout_def stdout_open_def sigpipe_kills_def)
next
  case (Non_terminal c)
  then show ?thesis
    unfolding run_process_def main_unfold
    by (cases c)
      (simp_all add: exit_process_def write_stdout_def stdout_open_def sigpipe_kills_def)
qed

lemma calls_unfold:
  "calls s = [Call_getuid, Call_geteuid,
      Call_printf (''real: '' @ conv_d (ruid s) @ '' effective: '' @ conv_d (euid s) @ ''\<newline>'')]"
  by (simp add: calls_def run_process_unfold)

lemma written_unfold:
  "written s = (if stdout_open s
      then ''real: '' @ conv_d (ruid s) @ '' effective: '' @ conv_d (euid s) @ ''\<newline>''
      else [])"
  by (simp add: written_def run_process_unfold)

lemma exit_status_unfold: "exit_status s = 0"
  by (simp add: exit_status_def main_unfold)


section \<open>The output line\<close>

text \<open>
  C1.  The claim is that the line written is \<open>real: \<close>, the real identifier,
  \<open> effective: \<close>, the effective identifier, and one newline, for every state of
  the process.  At the real identifier 4294967294 and the effective identifier 1000,
  with standard output a terminal, the run writes \<open>real: -2 effective: 1000\<close>,
  while the line made of the two identifiers is \<open>real: 4294967294 effective: 1000\<close>.
\<close>

theorem line_shows_wrong_real_id:
  "written \<lparr>ruid = 4294967294, euid = 1000, argv = [''execas''], envp = [],
       stdout_to = Terminal True, sigpipe_ignored = False, stdout = [], trace = []\<rparr>
     = ''real: -2 effective: 1000\<newline>''
   \<and> ''real: '' @ dec (unat (4294967294 :: uid_t)) @ '' effective: ''
         @ dec (unat (1000 :: uid_t)) @ ''\<newline>''
     = ''real: 4294967294 effective: 1000\<newline>''"
  by (simp add: written_unfold stdout_open_def conv_d_4294967294 conv_d_1000
      dec.simps digit_char_def)

text \<open>
  C2.  With real and effective identifier both 1000 the output is
  \<open>real: 1000 effective: 1000\<close> and a newline, and the exit status is 0; with real
  identifier 1000 and effective identifier 0 the output is \<open>real: 1000 effective: 0\<close>
  and a newline, and the exit status is 0.
\<close>

theorem end_to_end_scenarios:
  "(ruid s = 1000 \<and> euid s = 1000 \<longrightarrow>
      exit_status s = 0
      \<and> output_calls (calls s) = [''real: 1000 effective: 1000\<newline>'']
      \<and> (stdout_open s \<longrightarrow> written s = ''real: 1000 effective: 1000\<newline>''))
   \<and> (ruid s = 1000 \<and> euid s = 0 \<longrightarrow>
      exit_status s = 0
      \<and> output_calls (calls s) = [''real: 1000 effective: 0\<newline>'']
      \<and> (stdout_open s \<longrightarrow> written s = ''real: 1000 effective: 0\<newline>''))"
  by (simp add: exit_status_unfold calls_unfold written_unfold output_calls_def
      conv_d_1000 conv_d_0)

theorem end_to_end_scenarios_witness:
  "written \<lparr>ruid = 1000, euid = 1000, argv = [''execas''], envp = [],
       stdout_to = Non_terminal Accepts, sigpipe_ignored = False, stdout = [], trace = []\<rparr> = ''real: 1000 effective: 1000\<newline>''
   \<and> exit_status \<lparr>ruid = 1000, euid = 1000, argv = [''execas''], envp = [],
       stdout_to = Non_terminal Accepts, sigpipe_ignored = False, stdout = [], trace = []\<rparr> = 0
   \<and> written \<lparr>ruid = 1000, euid = 0, argv = [''execas''], envp = [],
       stdout_to = Terminal True, sigpipe_ignored = False, stdout = [], trace = []\<rparr> = ''real: 1000 effective: 0\<newline>''
   \<and> exit_status \<lparr>ruid = 1000, euid = 0, argv = [''execas''], envp = [],
       stdout_to = Terminal True, sigpipe_ignored = False, stdout = [], trace = []\<rparr> = 0"
  using end_to_end_scenarios [of "\<lparr>ruid = 1000, euid = 1000, argv = [''execas''], envp = [],
       stdout_to = Non_terminal Accepts, sigpipe_ignored = False, stdout = [], trace = []\<rparr>"]
    end_to_end_scenarios [of "\<lparr>ruid = 1000, euid = 0, argv = [''execas''], envp = [],
       stdout_to = Terminal True, sigpipe_ignored = False, stdout = [], trace = []\<rparr>"]
  by (simp add: stdout_open_def)

section \<open>The printed number\<close>

text \<open>
  C3.  The claim is that each printed field denotes the identifier the kernel reported,
  over the whole range of \<open>uid_t\<close>.  The program declares the identifiers as
  \<open>uid_t\<close>, which is unsigned, and prints them with \<open>%d\<close>, which reads a signed
  \<open>int\<close>.  At the identifier 3000000000 the run prints \<open>-1294967296\<close> in both
  fields, while the decimal numeral of the identifier is \<open>3000000000\<close>.
\<close>

theorem large_uid_printed_negative:
  "written \<lparr>ruid = 3000000000, euid = 3000000000, argv = [''execas''], envp = [],
       stdout_to = Non_terminal Accepts, sigpipe_ignored = False, stdout = [], trace = []\<rparr>
     = ''real: -1294967296 effective: -1294967296\<newline>''
   \<and> dec (unat (3000000000 :: uid_t)) = ''3000000000''"
  by (simp add: written_unfold stdout_open_def conv_d_3000000000 dec.simps digit_char_def)

text \<open>
  C10.  The line that a run prints, and that reaches standard output when the
  descriptor takes the write, holds for each identifier below \<open>2^31\<close> its own decimal
  numeral, and for each identifier of at least \<open>2^31\<close> a minus sign followed by the
  numeral of \<open>2^32\<close> minus the identifier.  This is what \<open>%d\<close> makes of the 32 bits:
  read back as a signed number, the field is the identifier itself below \<open>2^31\<close> and
  the identifier minus \<open>2^32\<close>, the negative number \<open>sint\<close> gives, from \<open>2^31\<close> on.
\<close>

theorem percent_d_reads_uid_as_signed_int:
  "let field = (\<lambda>u::uid_t. if unat u < 2 ^ 31 then dec (unat u) else CHR ''-'' # dec (2 ^ 32 - unat u));
       line = ''real: '' @ field (ruid s) @ '' effective: '' @ field (euid s) @ ''\<newline>''
   in output_calls (calls s) = [line]
      \<and> (stdout_open s \<longrightarrow> written s = line)
      \<and> (unat u < 2 ^ 31 \<longrightarrow>
           conv_d u = dec (unat u) \<and> signed_value (conv_d u) = int (unat u))
      \<and> (2 ^ 31 \<le> unat u \<longrightarrow>
           conv_d u = CHR ''-'' # dec (2 ^ 32 - unat u)
           \<and> signed_value (conv_d u) = int (unat u) - 2 ^ 32
           \<and> signed_value (conv_d u) = sint u)"
proof -
  have 1: "output_calls (calls s) = [''real: '' @ conv_d (ruid s) @ '' effective: '' @ conv_d (euid s) @ ''\<newline>'']"
    by (simp add: calls_unfold output_calls_def)
  have 2: "stdout_open s \<longrightarrow> written s = ''real: '' @ conv_d (ruid s) @ '' effective: '' @ conv_d (euid s) @ ''\<newline>''"
    by (simp add: written_unfold)
  have 3: "conv_d u = dec (unat u) \<and> signed_value (conv_d u) = int (unat u)"
    if "unat u < 2 ^ 31"
    using conv_d_low [OF that] by (simp add: signed_value_dec del: of_nat_unat)
  have 4: "conv_d u = CHR ''-'' # dec (2 ^ 32 - unat u)
        \<and> signed_value (conv_d u) = int (unat u) - 2 ^ 32
        \<and> signed_value (conv_d u) = sint u"
    if h: "2 ^ 31 \<le> unat u"
  proof -
    have b: "unat u < 4294967296" by (rule unat_32_bound)
    then have "- int (4294967296 - unat u) = int (unat u) - 4294967296"
      by linarith
    then have "signed_value (CHR ''-'' # dec (2 ^ 32 - unat u)) = int (unat u) - 2 ^ 32"
      by (simp only: signed_value_minus_dec) simp
    with conv_d_high [OF h] sint_high [OF h] show ?thesis
      by (simp only:)
  qed
  from 1 2 3 4 show ?thesis
    unfolding Let_def conv_d_explicit [symmetric] by blast
qed

theorem percent_d_reads_uid_as_signed_int_witness:
  "stdout_open \<lparr>ruid = 1000, euid = 4294967294, argv = [''execas''], envp = [],
       stdout_to = Non_terminal Accepts, sigpipe_ignored = False, stdout = [], trace = []\<rparr>
   \<and> written \<lparr>ruid = 1000, euid = 4294967294, argv = [''execas''], envp = [],
       stdout_to = Non_terminal Accepts, sigpipe_ignored = False, stdout = [], trace = []\<rparr>
       = ''real: 1000 effective: -2\<newline>''
   \<and> unat (1000 :: uid_t) < 2 ^ 31
   \<and> signed_value (conv_d 1000) = 1000
   \<and> 2 ^ 31 \<le> unat (4294967294 :: uid_t)
   \<and> conv_d 4294967294 = CHR ''-'' # dec 2
   \<and> signed_value (conv_d 4294967294) = - 2"
proof -
  let ?s = "\<lparr>ruid = 1000, euid = 4294967294, argv = [''execas''], envp = [],
       stdout_to = Non_terminal Accepts, sigpipe_ignored = False, stdout = [], trace = []\<rparr>"
  have o: "stdout_open ?s"
    by (simp add: stdout_open_def)
  have a: "unat (1000 :: uid_t) < 2 ^ 31"
    by simp
  have b: "2 ^ 31 \<le> unat (4294967294 :: uid_t)"
    by simp
  from o percent_d_reads_uid_as_signed_int [of ?s 1000]
  have "written ?s = ''real: 1000 effective: -2\<newline>''"
    by (simp add: Let_def dec.simps digit_char_def)
  moreover from a percent_d_reads_uid_as_signed_int [of ?s 1000]
  have "signed_value (conv_d 1000) = int (unat (1000 :: uid_t))"
    unfolding Let_def by blast
  moreover from b percent_d_reads_uid_as_signed_int [of ?s 4294967294]
  have "conv_d 4294967294 = CHR ''-'' # dec (2 ^ 32 - unat (4294967294 :: uid_t))"
    and "signed_value (conv_d 4294967294) = int (unat (4294967294 :: uid_t)) - 2 ^ 32"
    unfolding Let_def by blast+
  ultimately show ?thesis
    using o a b by simp
qed

section \<open>Exit status and failure of the write\<close>

text \<open>
  C4.  The claim is that the program returns the exit status 0 whenever the write to
  standard output fails, a broken pipe included.  When standard output is a pipe whose
  reading end is gone and \<open>SIGPIPE\<close> has its default action, the process is killed by
  the signal while \<open>exit\<close> flushes the stream: it ends without an exit status.
\<close>

theorem broken_pipe_kills_process:
  "\<not> stdout_open \<lparr>ruid = 1000, euid = 0, argv = [''execas''], envp = [],
       stdout_to = Non_terminal Pipe_broken, sigpipe_ignored = False, stdout = [], trace = []\<rparr>
   \<and> fst (run_process \<lparr>ruid = 1000, euid = 0, argv = [''execas''], envp = [],
       stdout_to = Non_terminal Pipe_broken, sigpipe_ignored = False, stdout = [], trace = []\<rparr>) = Signaled 13
   \<and> fst (run_process \<lparr>ruid = 1000, euid = 0, argv = [''execas''], envp = [],
       stdout_to = Non_terminal Pipe_broken, sigpipe_ignored = False, stdout = [], trace = []\<rparr>) \<noteq> Exited 0"
  by (simp add: run_process_unfold stdout_open_def sigpipe_kills_def SIGPIPE_def)

text \<open>
  C4, as amended.  When descriptor 1 does not take the write, the program has still
  called \<open>printf\<close> with its line, \<open>main\<close> returns 0 with the line left in the buffer
  of the stream, and nothing reaches standard output.  If the failing write returns an
  error (a closed descriptor, or a broken pipe with \<open>SIGPIPE\<close> ignored) the process
  ends with exit status 0: no result of \<open>printf\<close> or of the flush is looked at.  If the
  failing write raises \<open>SIGPIPE\<close> with its default action, the process is killed by
  that signal.
\<close>

theorem write_error_ignored:
  "\<not> stdout_open s \<Longrightarrow>
     calls s = [Call_getuid, Call_geteuid,
        Call_printf (''real: '' @ conv_d (ruid s) @ '' effective: '' @ conv_d (euid s) @ ''\<newline>'')]
     \<and> fst (main s) = 0
     \<and> fst (snd (main s)) = ''real: '' @ conv_d (ruid s) @ '' effective: '' @ conv_d (euid s) @ ''\<newline>''
     \<and> written s = []
     \<and> stdout (snd (run_process s)) = stdout s
     \<and> (\<not> sigpipe_kills s \<longrightarrow> fst (run_process s) = Exited 0)
     \<and> (sigpipe_kills s \<longrightarrow> fst (run_process s) = Signaled SIGPIPE)"
  by (auto simp: calls_unfold written_unfold main_unfold run_process_unfold stdout_open_def)

theorem write_error_ignored_witness:
  "\<not> stdout_open \<lparr>ruid = 1000, euid = 0, argv = [''execas''], envp = [],
       stdout_to = Non_terminal Fails, sigpipe_ignored = False, stdout = ''earlier'', trace = []\<rparr>
   \<and> \<not> sigpipe_kills \<lparr>ruid = 1000, euid = 0, argv = [''execas''], envp = [],
       stdout_to = Non_terminal Fails, sigpipe_ignored = False, stdout = ''earlier'', trace = []\<rparr>
   \<and> fst (run_process \<lparr>ruid = 1000, euid = 0, argv = [''execas''], envp = [],
       stdout_to = Non_terminal Fails, sigpipe_ignored = False, stdout = ''earlier'', trace = []\<rparr>) = Exited 0
   \<and> stdout (snd (run_process \<lparr>ruid = 1000, euid = 0, argv = [''execas''], envp = [],
       stdout_to = Non_terminal Fails, sigpipe_ignored = False, stdout = ''earlier'', trace = []\<rparr>)) = ''earlier''
   \<and> \<not> stdout_open \<lparr>ruid = 1000, euid = 0, argv = [''execas''], envp = [],
       stdout_to = Non_terminal Pipe_broken, sigpipe_ignored = True, stdout = [], trace = []\<rparr>
   \<and> \<not> sigpipe_kills \<lparr>ruid = 1000, euid = 0, argv = [''execas''], envp = [],
       stdout_to = Non_terminal Pipe_broken, sigpipe_ignored = True, stdout = [], trace = []\<rparr>
   \<and> fst (run_process \<lparr>ruid = 1000, euid = 0, argv = [''execas''], envp = [],
       stdout_to = Non_terminal Pipe_broken, sigpipe_ignored = True, stdout = [], trace = []\<rparr>) = Exited 0
   \<and> \<not> stdout_open \<lparr>ruid = 1000, euid = 0, argv = [''execas''], envp = [],
       stdout_to = Non_terminal Pipe_broken, sigpipe_ignored = False, stdout = [], trace = []\<rparr>
   \<and> sigpipe_kills \<lparr>ruid = 1000, euid = 0, argv = [''execas''], envp = [],
       stdout_to = Non_terminal Pipe_broken, sigpipe_ignored = False, stdout = [], trace = []\<rparr>
   \<and> fst (run_process \<lparr>ruid = 1000, euid = 0, argv = [''execas''], envp = [],
       stdout_to = Non_terminal Pipe_broken, sigpipe_ignored = False, stdout = [], trace = []\<rparr>) = Signaled SIGPIPE"
  using write_error_ignored [of "\<lparr>ruid = 1000, euid = 0, argv = [''execas''], envp = [],
       stdout_to = Non_terminal Fails, sigpipe_ignored = False, stdout = ''earlier'', trace = []\<rparr>"]
    write_error_ignored [of "\<lparr>ruid = 1000, euid = 0, argv = [''execas''], envp = [],
       stdout_to = Non_terminal Pipe_broken, sigpipe_ignored = True, stdout = [], trace = []\<rparr>"]
    write_error_ignored [of "\<lparr>ruid = 1000, euid = 0, argv = [''execas''], envp = [],
       stdout_to = Non_terminal Pipe_broken, sigpipe_ignored = False, stdout = [], trace = []\<rparr>"]
  by (simp add: stdout_open_def sigpipe_kills_def)

text \<open>
  C5.  Every run returns the exit status 0: \<open>main\<close> has a single \<open>return\<close>, and
  it returns 0 from every state.
\<close>

theorem exit_status_always_zero: "fst (main s) = 0"
  by (simp add: main_unfold)

section \<open>What the behaviour depends on\<close>

text \<open>
  C6.  Two runs that are given the same real identifier and the same effective
  identifier make the same calls with the same output line and return the same exit
  status, whatever else differs between the two states; when standard output is in the
  same condition in both, the bytes that reach it are the same.
\<close>

theorem same_ids_same_behaviour:
  "ruid s1 = ruid s2 \<Longrightarrow> euid s1 = euid s2 \<Longrightarrow>
     exit_status s1 = exit_status s2
     \<and> calls s1 = calls s2
     \<and> output_calls (calls s1) = output_calls (calls s2)
     \<and> (stdout_open s1 = stdout_open s2 \<longrightarrow> written s1 = written s2)"
  by (simp add: exit_status_unfold calls_unfold written_unfold)

theorem same_ids_same_behaviour_witness:
  "written \<lparr>ruid = 1000, euid = 0, argv = [''execas''], envp = [],
       stdout_to = Terminal True, sigpipe_ignored = False, stdout = [], trace = []\<rparr>
   = written \<lparr>ruid = 1000, euid = 0, argv = [''./execas'', ''-v''], envp = [''HOME=/root''],
       stdout_to = Non_terminal Accepts, sigpipe_ignored = False, stdout = ''earlier'', trace = [Call_getuid]\<rparr>
   \<and> exit_status \<lparr>ruid = 1000, euid = 0, argv = [''execas''], envp = [],
       stdout_to = Terminal True, sigpipe_ignored = False, stdout = [], trace = []\<rparr>
   = exit_status \<lparr>ruid = 1000, euid = 0, argv = [''./execas'', ''-v''], envp = [''HOME=/root''],
       stdout_to = Non_terminal Accepts, sigpipe_ignored = False, stdout = ''earlier'', trace = [Call_getuid]\<rparr>"
  using same_ids_same_behaviour [of
      "\<lparr>ruid = 1000, euid = 0, argv = [''execas''], envp = [],
       stdout_to = Terminal True, sigpipe_ignored = False, stdout = [], trace = []\<rparr>"
      "\<lparr>ruid = 1000, euid = 0, argv = [''./execas'', ''-v''], envp = [''HOME=/root''],
       stdout_to = Non_terminal Accepts, sigpipe_ignored = False, stdout = ''earlier'', trace = [Call_getuid]\<rparr>"]
  by (simp add: stdout_open_def)

text \<open>
  C7.  Replacing the argument vector and the environment of a state by any others
  changes nothing of a run: the exit status, the calls, the bytes that reach standard
  output and the way the process ends are the same, and the final state differs only in
  the replaced argument vector and environment.
\<close>

theorem independent_of_args_and_env:
  "exit_status (s\<lparr>argv := a, envp := e\<rparr>) = exit_status s
   \<and> calls (s\<lparr>argv := a, envp := e\<rparr>) = calls s
   \<and> written (s\<lparr>argv := a, envp := e\<rparr>) = written s
   \<and> snd (run_process (s\<lparr>argv := a, envp := e\<rparr>)) = (snd (run_process s))\<lparr>argv := a, envp := e\<rparr>
   \<and> fst (run_process (s\<lparr>argv := a, envp := e\<rparr>)) = fst (run_process s)"
  by (simp add: exit_status_unfold calls_unfold written_unfold run_process_unfold
      stdout_open_def sigpipe_kills_def)

section \<open>Effects and their order\<close>

text \<open>
  C8.  The state after a run is the state before it with the written bytes appended to
  standard output and the run's calls appended to the log, and exactly one of those
  calls is an output call.  The real and effective identifiers, the argument vector, the
  environment, what standard output is connected to and its condition, the disposition
  of \<open>SIGPIPE\<close> and the rest of the machine are as they were.
\<close>

theorem only_effect_is_one_write:
  "snd (run_process s) = s\<lparr>stdout := stdout s @ written s, trace := trace s @ calls s\<rparr>
   \<and> length (output_calls (calls s)) = 1
   \<and> ruid (snd (run_process s)) = ruid s
   \<and> euid (snd (run_process s)) = euid s
   \<and> argv (snd (run_process s)) = argv s
   \<and> envp (snd (run_process s)) = envp s
   \<and> stdout_open (snd (run_process s)) = stdout_open s
   \<and> stdout_to (snd (run_process s)) = stdout_to s
   \<and> sigpipe_ignored (snd (run_process s)) = sigpipe_ignored s
   \<and> proc.more (snd (run_process s)) = proc.more s"
  by (simp add: calls_unfold written_unfold run_process_unfold output_calls_def
      stdout_open_def)

text \<open>
  C9.  The calls of every run are, in this order, \<open>getuid\<close>, \<open>geteuid\<close> and one
  \<open>printf\<close> of the line made from the two values just read, each query exactly once.
  When descriptor 1 takes the write, that line is what the run appends to standard
  output.  Then \<open>main\<close> returns 0, and the process ends with exit status 0 unless the
  flush is cut short by \<open>SIGPIPE\<close>.  The sequence is the same from every state.
\<close>

theorem fixed_linear_sequence:
  "let field = (\<lambda>u::uid_t. if unat u < 2 ^ 31 then dec (unat u) else CHR ''-'' # dec (2 ^ 32 - unat u));
       line = ''real: '' @ field (ruid s) @ '' effective: '' @ field (euid s) @ ''\<newline>''
   in trace (snd (run_process s)) = trace s @ [Call_getuid, Call_geteuid, Call_printf line]
      \<and> calls s = [Call_getuid, Call_geteuid, Call_printf line]
      \<and> count_list (calls s) Call_getuid = 1
      \<and> count_list (calls s) Call_geteuid = 1
      \<and> (stdout_open s \<longrightarrow>
           written s = line \<and> stdout (snd (run_process s)) = stdout s @ line)
      \<and> exit_status s = 0
      \<and> (\<not> sigpipe_kills s \<longrightarrow> fst (run_process s) = Exited 0)"
  unfolding Let_def conv_d_explicit [symmetric]
  by (simp add: exit_status_unfold calls_unfold written_unfold run_process_unfold)

theorem fixed_linear_sequence_witness:
  "stdout_open \<lparr>ruid = 1000, euid = 0, argv = [''execas''], envp = [],
       stdout_to = Terminal True, sigpipe_ignored = False, stdout = [], trace = []\<rparr>
   \<and> \<not> sigpipe_kills \<lparr>ruid = 1000, euid = 0, argv = [''execas''], envp = [],
       stdout_to = Terminal True, sigpipe_ignored = False, stdout = [], trace = []\<rparr>
   \<and> calls \<lparr>ruid = 1000, euid = 0, argv = [''execas''], envp = [],
       stdout_to = Terminal True, sigpipe_ignored = False, stdout = [], trace = []\<rparr>
       = [Call_getuid, Call_geteuid, Call_printf ''real: 1000 effective: 0\<newline>'']
   \<and> written \<lparr>ruid = 1000, euid = 0, argv = [''execas''], envp = [],
       stdout_to = Terminal True, sigpipe_ignored = False, stdout = [], trace = []\<rparr> = ''real: 1000 effective: 0\<newline>''
   \<and> fst (run_process \<lparr>ruid = 1000, euid = 0, argv = [''execas''], envp = [],
       stdout_to = Terminal True, sigpipe_ignored = False, stdout = [], trace = []\<rparr>) = Exited 0"
  using fixed_linear_sequence [of "\<lparr>ruid = 1000, euid = 0, argv = [''execas''], envp = [],
       stdout_to = Terminal True, sigpipe_ignored = False, stdout = [], trace = []\<rparr>"]
  by (simp add: Let_def stdout_open_def sigpipe_kills_def dec.simps digit_char_def)

end
